theory Spec2Isabelle
  imports Main
begin

section \<open>A failover reverse proxy: data model\<close>

text \<open>
  The program (\<^verbatim>\<open>main.go\<close>) listens on one address and forwards every request to
  server A while a background health checker finds it reachable, and to server B
  otherwise. The embedding keeps the program's names. What the program does to the
  outside world (log lines, lock operations, handing a request to a proxy, sleeping,
  exiting) is recorded, in order, in a trace of events.
\<close>

subsection \<open>Requests and headers\<close>

text \<open>
  \<^verbatim>\<open>http.Header\<close> is \<^verbatim>\<open>map[string][]string\<close>: every header name has a list of
  values, one per header line received. \<^verbatim>\<open>Get\<close> returns the first value of the name,
  and the empty string when the name is absent or has no value; \<^verbatim>\<open>Set\<close> replaces the
  whole list by the one value given. Both canonicalise the name first; the two names
  the program uses (\<^verbatim>\<open>Upgrade\<close>, \<^verbatim>\<open>Connection\<close>) are canonical already, and the server
  stores the names it parses in canonical form.
\<close>

type_synonym header = "string \<rightharpoonup> string list"

definition Header_Get :: "header \<Rightarrow> string \<Rightarrow> string" where
  "Header_Get h key = (case h key of None \<Rightarrow> [] | Some [] \<Rightarrow> [] | Some (v # _) \<Rightarrow> v)"

definition Header_Set :: "header \<Rightarrow> string \<Rightarrow> string \<Rightarrow> header" where
  "Header_Set h key v = h(key \<mapsto> [v])"

record request =
  Method :: string
  Path :: string
  Header :: header

record response =
  StatusCode :: int

definition StatusSwitchingProtocols :: int where
  "StatusSwitchingProtocols = 101"

subsection \<open>Events and the state of the process\<close>

datatype arg = ArgStr string | ArgBool bool | ArgInt int | ArgErr string

datatype backend = ProxyA | ProxyB

datatype event =
    RLock | RUnlock | Lock | Unlock
  | Printf string "arg list"
  | Println string
  | ServeHTTP backend request
  | BodyClose
  | Sleep nat
  | GoHealthChecker
  | HandleFunc string
  | ListenAndServe string
  | Exit nat

text \<open>
  \<^verbatim>\<open>ServerStatus\<close>: the flag; its mutex \<^verbatim>\<open>mu\<close> shows as the lock events of
  the trace.
\<close>

record ServerStatus =
  serverAOnline :: bool

record world =
  status :: ServerStatus
  trace :: "event list"

definition emit :: "event \<Rightarrow> world \<Rightarrow> world" where
  "emit e w = w\<lparr>trace := trace w @ [e]\<rparr>"

definition checkInterval :: nat where
  "checkInterval = 5"

section \<open>WebSocket handling of the proxies\<close>

definition isWebSocketRequest :: "request \<Rightarrow> bool" where
  "isWebSocketRequest req =
     (Header_Get (Header req) ''Upgrade'' = ''websocket'' \<and>
      Header_Get (Header req) ''Connection'' = ''Upgrade'')"

text \<open>
  A reverse proxy, as far as the program configures it: the director rewrites the
  outgoing request in place (here: returns the rewritten request), and
  \<^verbatim>\<open>ModifyResponse\<close> sees the upstream's response and returns an error or nil.
\<close>

record ReverseProxy =
  Director :: "request \<Rightarrow> request"
  ModifyResponse :: "response \<Rightarrow> world \<Rightarrow> string option \<times> world"

definition configureWebsocketProxy :: "ReverseProxy \<Rightarrow> ReverseProxy" where
  "configureWebsocketProxy proxy =
     (let originalDirector = Director proxy in
      proxy\<lparr>
        Director := (\<lambda>req0.
          let req = originalDirector req0 in
          if isWebSocketRequest req then
            (let req1 =
                   (if Header_Get (Header req) ''Connection'' \<noteq> []
                    then req\<lparr>Header := Header_Set (Header req) ''Connection'' ''Upgrade''\<rparr>
                    else req);
                 req2 =
                   (if Header_Get (Header req1) ''Upgrade'' \<noteq> []
                    then req1\<lparr>Header := Header_Set (Header req1) ''Upgrade'' ''websocket''\<rparr>
                    else req1)
             in req2)
          else req),
        ModifyResponse := (\<lambda>resp w.
          if StatusCode resp = StatusSwitchingProtocols
          then (None, emit (Println ''WebSocket connection established'') w)
          else (None, w))\<rparr>)"

section \<open>The shared status and the health checker\<close>

text \<open>
  \<^verbatim>\<open>setServerAStatus\<close> has no result: the model returns the unit value beside the
  new state. The deferred \<^verbatim>\<open>Unlock\<close> runs last.
\<close>

definition setServerAStatus :: "bool \<Rightarrow> world \<Rightarrow> unit \<times> world" where
  "setServerAStatus online w =
     (let w1 = emit Lock w;
          w2 =
            (if serverAOnline (status w1) \<noteq> online then
               (let w' =
                      (if online
                       then emit (Println ''Server A is now online. Switching back to server A.'') w1
                       else emit (Println ''Server A is offline. Switching to server B.'') w1)
                in w'\<lparr>status := (status w')\<lparr>serverAOnline := online\<rparr>\<rparr>)
             else w1);
          w3 = emit Unlock w2
      in ((), w3))"

text \<open>
  What one probe of server A came to: \<^verbatim>\<open>http.NewRequest\<close> returned an error, or
  \<^verbatim>\<open>client.Do\<close> returned an error (a transport failure, or the client's two-second
  timeout, which \<^verbatim>\<open>Do\<close> reports as an error too), or a response with its status code.
\<close>

datatype probe_outcome =
    NewRequestError string
  | DoError string
  | Response int

text \<open>One turn of the loop of \<^verbatim>\<open>healthChecker\<close>.\<close>

fun healthCheckCycle :: "probe_outcome \<Rightarrow> world \<Rightarrow> world" where
  "healthCheckCycle (NewRequestError err) w =
     (let w1 = emit (Printf ''Error creating health check request: %v'' [ArgErr err]) w;
          w2 = snd (setServerAStatus False w1);
          w3 = emit (Sleep checkInterval) w2
      in w3)"
| "healthCheckCycle (DoError err) w =
     (let w1 = emit (Printf ''Health check failed for server A: %v'' [ArgErr err]) w;
          w2 = snd (setServerAStatus False w1);
          w3 = emit (Sleep checkInterval) w2
      in w3)"
| "healthCheckCycle (Response code) w =
     (let w1 = emit BodyClose w;
          w2 = emit (Printf ''Server A is online (status code: %d)'' [ArgInt code]) w1;
          w3 = snd (setServerAStatus True w2);
          w4 = emit (Sleep checkInterval) w3
      in w4)"

text \<open>
  The loop has no exit. Given the outcomes of the probes made so far, in order,
  \<open>healthChecker\<close> is the state after that many turns.
\<close>

fun healthChecker :: "probe_outcome list \<Rightarrow> world \<Rightarrow> world" where
  "healthChecker [] w = w"
| "healthChecker (p # ps) w = healthChecker ps (healthCheckCycle p w)"

text \<open>
  The loop as it stands in the source, over the unbounded sequence of the outcomes
  (the \<open>n\<close>-th probe comes to \<open>outcomes n\<close>): its value is \<open>None\<close> when it does
  not return.
\<close>

partial_function (option) healthChecker_loop ::
  "(nat \<Rightarrow> probe_outcome) \<Rightarrow> nat \<Rightarrow> world \<Rightarrow> unit option" where
  "healthChecker_loop outcomes n w =
     healthChecker_loop outcomes (Suc n) (healthCheckCycle (outcomes n) w)"

section \<open>The request handler and start-up\<close>

text \<open>
  The configuration read from the environment when the program starts
  (\<^verbatim>\<open>listenAddr\<close> is the colon followed by \<^verbatim>\<open>LISTEN_ADDR\<close>).
\<close>

record config =
  listenAddr :: string
  serverAAddr :: string
  serverBAddr :: string

text \<open>
  The function registered for every path. The request leaves the process when a
  proxy's \<^verbatim>\<open>ServeHTTP\<close> is called with it: the event \<open>ServeHTTP\<close> names the proxy.
\<close>

definition handler :: "config \<Rightarrow> request \<Rightarrow> world \<Rightarrow> unit \<times> world" where
  "handler cfg r w =
     (let w1 = emit RLock w;
          serverAIsOnline = serverAOnline (status w1);
          w2 = emit RUnlock w1;
          w3 = emit (Printf ''Received request: %s %s'' [ArgStr (Method r), ArgStr (Path r)]) w2;
          w4 = emit (Printf ''Server A online: %v'' [ArgBool serverAIsOnline]) w3
      in if serverAIsOnline
         then ((), emit (ServeHTTP ProxyA r)
                     (emit (Printf ''Proxying to server A: %s'' [ArgStr (serverAAddr cfg)]) w4))
         else ((), emit (ServeHTTP ProxyB r)
                     (emit (Printf ''Proxying to server B: %s'' [ArgStr (serverBAddr cfg)]) w4)))"

text \<open>
  A parsed URL (\<^verbatim>\<open>url.URL\<close>), with the library's test for an absolute one: a URL
  is absolute when it has a scheme.
\<close>

record url =
  Scheme :: string
  Host :: string
  URLPath :: string

definition IsAbs :: "url \<Rightarrow> bool" where
  "IsAbs u = (Scheme u \<noteq> [])"

text \<open>
  \<^verbatim>\<open>log.Fatalf\<close> prints the line and calls \<^verbatim>\<open>os.Exit(1)\<close>.
\<close>

definition Fatalf :: "string \<Rightarrow> arg list \<Rightarrow> event list" where
  "Fatalf format args = [Printf format args, Exit 1]"

datatype main_result =
    Exited "event list"
  | Serving world

text \<open>
  \<^verbatim>\<open>main\<close>. The two library calls whose results it tests are parameters:
  \<open>url_Parse\<close> returns an error (\<open>Inl\<close>) or a URL, and \<open>http_ListenAndServe\<close>
  returns an error, or does not return while the server runs (\<open>None\<close>). Between the
  parsing and the status, \<^verbatim>\<open>main\<close> builds the two proxies and passes each to
  \<^verbatim>\<open>configureWebsocketProxy\<close>; the handler reaches them as \<open>ProxyA\<close> and \<open>ProxyB\<close>.
\<close>

definition main ::
  "(string \<Rightarrow> string + url) \<Rightarrow> (string \<Rightarrow> string option) \<Rightarrow> config \<Rightarrow> main_result" where
  "main url_Parse http_ListenAndServe cfg =
     (case url_Parse (serverAAddr cfg) of
        Inl err \<Rightarrow> Exited (Fatalf ''Failed to parse server A URL: %v'' [ArgErr err])
      | Inr serverA \<Rightarrow>
          (case url_Parse (serverBAddr cfg) of
             Inl err \<Rightarrow> Exited (Fatalf ''Failed to parse server B URL: %v'' [ArgErr err])
           | Inr serverB \<Rightarrow>
               (let w0 = \<lparr>status = \<lparr>serverAOnline = True\<rparr>, trace = []\<rparr>;
                    w1 = emit GoHealthChecker w0;
                    w2 = emit (HandleFunc ''/'') w1;
                    w3 = emit (Printf ''Starting reverse proxy on %s'' [ArgStr (listenAddr cfg)]) w2;
                    w4 = emit (Printf ''Primary target: %s'' [ArgStr (serverAAddr cfg)]) w3;
                    w5 = emit (Printf ''Fallback target: %s'' [ArgStr (serverBAddr cfg)]) w4;
                    w6 = emit (ListenAndServe (listenAddr cfg)) w5
                in case http_ListenAndServe (listenAddr cfg) of
                     Some err \<Rightarrow>
                       Exited (trace w6 @ Fatalf ''Error starting server: %v'' [ArgErr err])
                   | None \<Rightarrow> Serving w6)))"

section \<open>Runs of the process\<close>

text \<open>
  After start-up two things happen to the shared status, in some order: the health
  checker finishes a turn of its loop, and the handler serves a request. A run takes
  them one at a time.
\<close>

datatype step = Probe probe_outcome | Request request

fun run :: "config \<Rightarrow> step list \<Rightarrow> world \<Rightarrow> world" where
  "run cfg [] w = w"
| "run cfg (Probe p # ss) w = run cfg ss (healthCheckCycle p w)"
| "run cfg (Request r # ss) w = run cfg ss (snd (handler cfg r w))"

text \<open>The requests handed to the proxies, in order, with the proxy each went to.\<close>

fun forwards :: "event list \<Rightarrow> (backend \<times> request) list" where
  "forwards [] = []"
| "forwards (ServeHTTP b r # es) = (b, r) # forwards es"
| "forwards (_ # es) = forwards es"

text \<open>The two lines that report a change of the status.\<close>

definition is_transition :: "event \<Rightarrow> bool" where
  "is_transition e =
     (e = Println ''Server A is now online. Switching back to server A.'' \<or>
      e = Println ''Server A is offline. Switching to server B.'')"

definition transitions :: "event list \<Rightarrow> event list" where
  "transitions es = filter is_transition es"

text \<open>
  How the specification classifies the outcome of a probe: online when a response
  was received, whatever its status code; offline otherwise.
\<close>

fun outcome_is_online :: "probe_outcome \<Rightarrow> bool" where
  "outcome_is_online (Response code) = True"
| "outcome_is_online (NewRequestError err) = False"
| "outcome_is_online (DoError err) = False"

section \<open>Basic facts\<close>

lemma status_emit [simp]: "status (emit e w) = status w"
  by (simp add: emit_def)

lemma trace_emit [simp]: "trace (emit e w) = trace w @ [e]"
  by (simp add: emit_def)

lemma Header_Get_first:
  "v \<noteq> [] \<Longrightarrow> (Header_Get h k = v) = (\<exists>vs. h k = Some (v # vs))"
  by (auto simp: Header_Get_def split: option.splits list.splits)

text \<open>The director that \<open>configureWebsocketProxy\<close> installs, in one step.\<close>

lemma Director_configure:
  "Director (configureWebsocketProxy proxy) req0 =
     (if isWebSocketRequest (Director proxy req0)
      then (Director proxy req0)\<lparr>Header :=
             (Header (Director proxy req0))
               (''Connection'' \<mapsto> [''Upgrade''], ''Upgrade'' \<mapsto> [''websocket''])\<rparr>
      else Director proxy req0)"
  by (auto simp: configureWebsocketProxy_def Let_def isWebSocketRequest_def
      Header_Set_def Header_Get_def)

lemma setServerAStatus_eq:
  "setServerAStatus online w =
     ((), w\<lparr>status := (status w)\<lparr>serverAOnline := online\<rparr>,
            trace := trace w @ [Lock] @
              (if serverAOnline (status w) \<noteq> online
               then [Println (if online
                              then ''Server A is now online. Switching back to server A.''
                              else ''Server A is offline. Switching to server B.'')]
               else []) @ [Unlock]\<rparr>)"
  by (auto simp: setServerAStatus_def emit_def Let_def)

lemma healthChecker_loop_None: "healthChecker_loop outcomes n w = None"
proof (cases "healthChecker_loop outcomes n w")
  case None
  then show ?thesis .
next
  case (Some y)
  have False
  proof (rule healthChecker_loop.raw_induct [where P = "\<lambda>_ _ _ _. False", OF _ Some])
    fix f :: "(nat \<Rightarrow> probe_outcome) \<Rightarrow> nat \<Rightarrow> world \<Rightarrow> unit option"
    fix outcomes n w y
    assume "\<And>outcomes n w y. f outcomes n w = Some y \<Longrightarrow> False"
      and "f outcomes (Suc n) (healthCheckCycle (outcomes n) w) = Some y"
    then show False by blast
  qed
  then show ?thesis ..
qed

lemma healthCheckCycle_status [simp]:
  "serverAOnline (status (healthCheckCycle p w)) = outcome_is_online p"
  by (cases p) (simp_all add: setServerAStatus_eq)

lemma healthChecker_append:
  "healthChecker (xs @ ys) w = healthChecker ys (healthChecker xs w)"
  by (induction xs arbitrary: w) simp_all

lemma healthChecker_snoc_status:
  "serverAOnline (status (healthChecker (xs @ [p]) w)) = outcome_is_online p"
  by (simp add: healthChecker_append)

lemma transitions_append [simp]: "transitions (xs @ ys) = transitions xs @ transitions ys"
  by (simp add: transitions_def)

lemma transitions_healthCheckCycle:
  "transitions (trace (healthCheckCycle p w)) =
     transitions (trace w) @
       (if serverAOnline (status w) \<noteq> outcome_is_online p
        then [Println (if outcome_is_online p
                       then ''Server A is now online. Switching back to server A.''
                       else ''Server A is offline. Switching to server B.'')]
        else [])"
  by (cases p) (simp_all add: setServerAStatus_eq transitions_def is_transition_def)

lemma healthChecker_same_outcomes:
  "\<forall>p \<in> set ps. outcome_is_online p = serverAOnline (status w) \<Longrightarrow>
     status (healthChecker ps w) = status w \<and>
     transitions (trace (healthChecker ps w)) = transitions (trace w)"
proof (induction ps arbitrary: w)
  case Nil
  then show ?case by simp
next
  case (Cons p ps)
  have p: "outcome_is_online p = serverAOnline (status w)"
    using Cons.prems by simp
  have st: "status (healthCheckCycle p w) = status w"
    using p by (cases p) (simp_all add: setServerAStatus_eq)
  have tr: "transitions (trace (healthCheckCycle p w)) = transitions (trace w)"
    using p by (simp add: transitions_healthCheckCycle)
  from Cons.prems st
  have "\<forall>q \<in> set ps. outcome_is_online q = serverAOnline (status (healthCheckCycle p w))"
    by simp
  from Cons.IH [OF this] st tr show ?case by simp
qed

lemma handler_eq:
  "handler cfg r w =
     ((), w\<lparr>trace := trace w @
        [RLock, RUnlock,
         Printf ''Received request: %s %s'' [ArgStr (Method r), ArgStr (Path r)],
         Printf ''Server A online: %v'' [ArgBool (serverAOnline (status w))],
         (if serverAOnline (status w)
          then Printf ''Proxying to server A: %s'' [ArgStr (serverAAddr cfg)]
          else Printf ''Proxying to server B: %s'' [ArgStr (serverBAddr cfg)]),
         ServeHTTP (if serverAOnline (status w) then ProxyA else ProxyB) r]\<rparr>)"
  by (simp add: handler_def emit_def Let_def)

lemma run_append: "run cfg (xs @ ys) w = run cfg ys (run cfg xs w)"
  by (induction cfg xs w rule: run.induct) simp_all

lemma forwards_append [simp]: "forwards (xs @ ys) = forwards xs @ forwards ys"
  by (induction xs rule: forwards.induct) simp_all

lemma main_Serving_status:
  "main url_Parse http_ListenAndServe cfg = Serving w0 \<Longrightarrow> serverAOnline (status w0)"
  by (auto simp: main_def Let_def emit_def split: sum.splits option.splits)

section \<open>Routing\<close>

text \<open>
  Claim C1. For every request and every state, the handler takes the read lock
  once, reads the flag, releases the lock, and hands the request, unchanged, to proxy A
  when the flag is true and to proxy B when it is false; it leaves the flag as it
  was. In a run, each request goes by the value the flag has when that request is
  served, whatever happened to earlier requests.
\<close>

theorem failover_routing:
  "handler cfg r w =
     ((), w\<lparr>trace := trace w @
        [RLock, RUnlock,
         Printf ''Received request: %s %s'' [ArgStr (Method r), ArgStr (Path r)],
         Printf ''Server A online: %v'' [ArgBool (serverAOnline (status w))],
         (if serverAOnline (status w)
          then Printf ''Proxying to server A: %s'' [ArgStr (serverAAddr cfg)]
          else Printf ''Proxying to server B: %s'' [ArgStr (serverBAddr cfg)]),
         ServeHTTP (if serverAOnline (status w) then ProxyA else ProxyB) r]\<rparr>)
   \<and> status (run cfg (pre @ [Request r]) w) = status (run cfg pre w)
   \<and> forwards (trace (run cfg (pre @ [Request r]) w)) =
       forwards (trace (run cfg pre w)) @
         [(if serverAOnline (status (run cfg pre w)) then ProxyA else ProxyB, r)]"
  by (simp add: handler_eq run_append)

theorem failover_routing_witness:
  "forwards (trace (run \<lparr>listenAddr = '':8080'', serverAAddr = ''http://a:11434'',
                          serverBAddr = ''http://b:11434''\<rparr>
       ([Probe (DoError ''timeout''),
         Request \<lparr>Method = ''GET'', Path = ''/one'', Header = Map.empty\<rparr>,
         Probe (Response 200)] @
        [Request \<lparr>Method = ''POST'', Path = ''/two'', Header = Map.empty\<rparr>])
       \<lparr>status = \<lparr>serverAOnline = True\<rparr>, trace = []\<rparr>)) =
     [(ProxyB, \<lparr>Method = ''GET'', Path = ''/one'', Header = Map.empty\<rparr>),
      (ProxyA, \<lparr>Method = ''POST'', Path = ''/two'', Header = Map.empty\<rparr>)]"
  using failover_routing [of
      "\<lparr>listenAddr = '':8080'', serverAAddr = ''http://a:11434'', serverBAddr = ''http://b:11434''\<rparr>"
      "\<lparr>Method = ''POST'', Path = ''/two'', Header = Map.empty\<rparr>"
      "\<lparr>status = \<lparr>serverAOnline = True\<rparr>, trace = []\<rparr>"
      "[Probe (DoError ''timeout''),
        Request \<lparr>Method = ''GET'', Path = ''/one'', Header = Map.empty\<rparr>,
        Probe (Response 200)]"]
  by (simp add: handler_eq setServerAStatus_eq)

section \<open>The status follows the probes\<close>

text \<open>
  Claim C2. The status that \<open>main\<close> creates is online. After the first \<open>N\<close>
  probes of any sequence of outcomes, the flag is the classification of the \<open>N\<close>-th
  outcome: true when a response came, with any status code, and false when building
  the request or sending it failed (a timeout is such a failure).
\<close>

theorem status_after_probes:
  assumes "main url_Parse http_ListenAndServe cfg = Serving w0"
    and "N \<le> length os"
  shows "serverAOnline (status (healthChecker (take N os) w0)) =
           (if N = 0 then True else outcome_is_online (os ! (N - 1)))"
proof (cases N)
  case 0
  with assms(1) show ?thesis by (simp add: main_Serving_status)
next
  case (Suc M)
  with assms(2) have "take N os = take M os @ [os ! M]"
    by (simp add: take_Suc_conv_app_nth)
  with Suc show ?thesis by (simp add: healthChecker_snoc_status)
qed

theorem status_after_probes_witness:
  "(case main (\<lambda>s. Inr \<lparr>Scheme = ''http'', Host = s, URLPath = []\<rparr>) (\<lambda>a. None)
           \<lparr>listenAddr = '':8080'', serverAAddr = ''http://a:11434'',
              serverBAddr = ''http://b:11434''\<rparr> of
      Exited t \<Rightarrow> False
    | Serving w0 \<Rightarrow>
        serverAOnline (status (healthChecker (take 0 [Response 200, DoError ''timeout'', Response 503]) w0))
        \<and> \<not> serverAOnline (status (healthChecker (take 2 [Response 200, DoError ''timeout'', Response 503]) w0))
        \<and> serverAOnline (status (healthChecker (take 3 [Response 200, DoError ''timeout'', Response 503]) w0)))"
proof -
  let ?P = "\<lambda>s. Inr \<lparr>Scheme = ''http'', Host = s, URLPath = []\<rparr> :: string + url"
  let ?L = "\<lambda>a. None :: string option"
  let ?cfg = "\<lparr>listenAddr = '':8080'', serverAAddr = ''http://a:11434'',
              serverBAddr = ''http://b:11434''\<rparr>"
  let ?os = "[Response 200, DoError ''timeout'', Response 503]"
  obtain w0 where m: "main ?P ?L ?cfg = Serving w0"
    by (simp add: main_def Let_def)
  have "serverAOnline (status (healthChecker (take 0 ?os) w0))"
    using status_after_probes [OF m, of 0 ?os] by simp
  moreover have "\<not> serverAOnline (status (healthChecker (take 2 ?os) w0))"
    using status_after_probes [OF m, of 2 ?os] by simp
  moreover have "serverAOnline (status (healthChecker (take 3 ?os) w0))"
    using status_after_probes [OF m, of 3 ?os] by simp
  ultimately show ?thesis
    using m by simp
qed

section \<open>Writing the status\<close>

text \<open>
  Claim C3, as amended. \<open>setServerAStatus\<close> returns no value. Under the lock it sets
  the flag to the value given, and it prints the line of the transition itself: one
  line when the value differs from the one stored (``now online'' or ``offline'', by
  the new value), and none when it is the same.
\<close>

theorem setServerAStatus_write:
  "fst (setServerAStatus online w) = ()
   \<and> serverAOnline (status (snd (setServerAStatus online w))) = online
   \<and> trace (snd (setServerAStatus online w)) =
       trace w @ [Lock] @
         (if serverAOnline (status w) \<noteq> online
          then [Println (if online
                         then ''Server A is now online. Switching back to server A.''
                         else ''Server A is offline. Switching to server B.'')]
          else []) @ [Unlock]
   \<and> length (transitions (trace (snd (setServerAStatus online w)))) =
       length (transitions (trace w)) + (if serverAOnline (status w) \<noteq> online then 1 else 0)"
  by (simp add: setServerAStatus_eq transitions_def is_transition_def)

theorem setServerAStatus_write_witness:
  "trace (snd (setServerAStatus False \<lparr>status = \<lparr>serverAOnline = True\<rparr>, trace = []\<rparr>)) =
     [Lock, Println ''Server A is offline. Switching to server B.'', Unlock]
   \<and> \<not> serverAOnline (status (snd (setServerAStatus False \<lparr>status = \<lparr>serverAOnline = True\<rparr>, trace = []\<rparr>)))"
  using setServerAStatus_write [of False "\<lparr>status = \<lparr>serverAOnline = True\<rparr>, trace = []\<rparr>"]
  by simp

text \<open>
  Claim C3 as stated fails: the write has no result that tells whether the value
  changed. A call that changes the flag and a call that does not return the same.
\<close>

theorem setServerAStatus_returns_nothing:
  "fst (setServerAStatus False \<lparr>status = \<lparr>serverAOnline = True\<rparr>, trace = []\<rparr>) =
     fst (setServerAStatus False \<lparr>status = \<lparr>serverAOnline = False\<rparr>, trace = []\<rparr>)
   \<and> serverAOnline (status (snd (setServerAStatus False \<lparr>status = \<lparr>serverAOnline = True\<rparr>, trace = []\<rparr>)))
       \<noteq> serverAOnline \<lparr>serverAOnline = True\<rparr>
   \<and> serverAOnline (status (snd (setServerAStatus False \<lparr>status = \<lparr>serverAOnline = False\<rparr>, trace = []\<rparr>)))
       = serverAOnline \<lparr>serverAOnline = False\<rparr>"
  by (simp add: setServerAStatus_eq)

section \<open>Failures of a probe\<close>

lemma sleeps_healthCheckCycle:
  "filter (\<lambda>e. e = Sleep checkInterval) (trace (healthCheckCycle p w)) =
     filter (\<lambda>e. e = Sleep checkInterval) (trace w) @ [Sleep checkInterval]"
  by (cases p) (simp_all add: setServerAStatus_eq)

lemma sleeps_healthChecker:
  "length (filter (\<lambda>e. e = Sleep checkInterval) (trace (healthChecker ps w))) =
     length (filter (\<lambda>e. e = Sleep checkInterval) (trace w)) + length ps"
  by (induction ps arbitrary: w) (simp_all add: sleeps_healthCheckCycle)

lemma healthCheckCycle_failure_line:
  "\<not> outcome_is_online f \<Longrightarrow>
     \<exists>format err.
       (format = ''Error creating health check request: %v'' \<or>
        format = ''Health check failed for server A: %v'') \<and>
       healthCheckCycle f w =
         emit (Sleep checkInterval)
           (snd (setServerAStatus False (emit (Printf format [ArgErr err]) w)))"
  by (cases f) auto

lemma healthChecker_loop_unfold:
  "healthChecker_loop outcomes n w =
     healthChecker_loop outcomes (n + k) (healthChecker (map outcomes [n..<n + k]) w)"
proof (induction k)
  case 0
  then show ?case by simp
next
  case (Suc k)
  have "healthChecker_loop outcomes (n + k) (healthChecker (map outcomes [n..<n + k]) w) =
        healthChecker_loop outcomes (Suc (n + k))
          (healthCheckCycle (outcomes (n + k)) (healthChecker (map outcomes [n..<n + k]) w))"
    by (rule healthChecker_loop.simps)
  with Suc show ?case
    by (simp add: healthChecker_append)
qed

text \<open>
  Claim C4. A probe that fails, whether the request could not be built or sending it
  returned an error (a timeout included), is handled in one way: a line is logged, the
  status is written as offline, and the loop sleeps for the check interval. The loop
  then goes on with the next probe: every outcome of a sequence gets its turn and its
  sleep, and the loop never returns. After any number of turns the loop stands at the
  state that \<open>healthChecker\<close> gives for the outcomes of these turns.
\<close>

theorem health_check_failure_not_fatal:
  assumes "\<not> outcome_is_online f"
  shows "\<not> serverAOnline (status (healthCheckCycle f w))
       \<and> (\<exists>format err.
             (format = ''Error creating health check request: %v'' \<or>
              format = ''Health check failed for server A: %v'') \<and>
             healthCheckCycle f w =
               emit (Sleep checkInterval)
                 (snd (setServerAStatus False (emit (Printf format [ArgErr err]) w))))
       \<and> healthChecker (pre @ f # post) w =
             healthChecker post (healthCheckCycle f (healthChecker pre w))
       \<and> length (filter (\<lambda>e. e = Sleep checkInterval) (trace (healthChecker (pre @ f # post) w))) =
             length (filter (\<lambda>e. e = Sleep checkInterval) (trace w)) + length (pre @ f # post)
       \<and> healthChecker_loop outcomes n w = None
       \<and> healthChecker_loop outcomes n w =
             healthChecker_loop outcomes (n + k) (healthChecker (map outcomes [n..<n + k]) w)"
proof -
  have offline: "\<not> serverAOnline (status (healthCheckCycle f w))"
    using assms by simp
  have same: "\<exists>format err.
             (format = ''Error creating health check request: %v'' \<or>
              format = ''Health check failed for server A: %v'') \<and>
             healthCheckCycle f w =
               emit (Sleep checkInterval)
                 (snd (setServerAStatus False (emit (Printf format [ArgErr err]) w)))"
    using assms by (rule healthCheckCycle_failure_line)
  have continues: "healthChecker (pre @ f # post) w =
          healthChecker post (healthCheckCycle f (healthChecker pre w))"
    by (simp add: healthChecker_append)
  have sleeps: "length (filter (\<lambda>e. e = Sleep checkInterval)
            (trace (healthChecker (pre @ f # post) w))) =
          length (filter (\<lambda>e. e = Sleep checkInterval) (trace w)) + length (pre @ f # post)"
    by (rule sleeps_healthChecker)
  have never: "healthChecker_loop outcomes n w = None"
    by (rule healthChecker_loop_None)
  have turns: "healthChecker_loop outcomes n w =
          healthChecker_loop outcomes (n + k) (healthChecker (map outcomes [n..<n + k]) w)"
    by (rule healthChecker_loop_unfold)
  from offline same continues sleeps never turns show ?thesis
    by (intro conjI)
qed

theorem health_check_failure_not_fatal_witness:
  "\<not> serverAOnline (status (healthCheckCycle (DoError ''timeout'')
         \<lparr>status = \<lparr>serverAOnline = True\<rparr>, trace = []\<rparr>))
   \<and> serverAOnline (status (healthChecker ([Response 200] @ DoError ''timeout'' # [Response 500])
         \<lparr>status = \<lparr>serverAOnline = True\<rparr>, trace = []\<rparr>))
   \<and> length (filter (\<lambda>e. e = Sleep checkInterval)
         (trace (healthChecker ([Response 200] @ DoError ''timeout'' # [Response 500])
            \<lparr>status = \<lparr>serverAOnline = True\<rparr>, trace = []\<rparr>))) = 3"
  using health_check_failure_not_fatal [of "DoError ''timeout''"
      "\<lparr>status = \<lparr>serverAOnline = True\<rparr>, trace = []\<rparr>" "[Response 200]" "[Response 500]"]
  by (simp add: setServerAStatus_eq)

section \<open>Classifying a WebSocket request\<close>

text \<open>
  Claim C5. A request is a WebSocket request exactly when the first value of its
  \<^verbatim>\<open>Upgrade\<close> header is the string \<^verbatim>\<open>websocket\<close> and the first value of its
  \<^verbatim>\<open>Connection\<close> header is the string \<^verbatim>\<open>Upgrade\<close>, compared character by
  character. A request that lacks one of the two headers is not one, and a request
  that is not one leaves the configured director as the original director left it.
\<close>

theorem isWebSocketRequest_exact_match:
  "(isWebSocketRequest req \<longleftrightarrow>
      (\<exists>vs. Header req ''Upgrade'' = Some (''websocket'' # vs)) \<and>
      (\<exists>ws. Header req ''Connection'' = Some (''Upgrade'' # ws)))
   \<and> (Header req ''Connection'' = None \<or> Header req ''Upgrade'' = None \<longrightarrow>
        \<not> isWebSocketRequest req)
   \<and> (\<not> isWebSocketRequest (Director proxy req0) \<longrightarrow>
        Director (configureWebsocketProxy proxy) req0 = Director proxy req0)"
  by (auto simp: isWebSocketRequest_def Header_Get_first Director_configure)

theorem isWebSocketRequest_exact_match_witness:
  "isWebSocketRequest \<lparr>Method = ''GET'', Path = ''/ws'',
       Header = [''Upgrade'' \<mapsto> [''websocket''], ''Connection'' \<mapsto> [''Upgrade'']]\<rparr>
   \<and> \<not> isWebSocketRequest \<lparr>Method = ''GET'', Path = ''/ws'',
       Header = [''Upgrade'' \<mapsto> [''websocket'']]\<rparr>
   \<and> \<not> isWebSocketRequest \<lparr>Method = ''GET'', Path = ''/ws'',
       Header = [''Upgrade'' \<mapsto> [''WebSocket''], ''Connection'' \<mapsto> [''Upgrade'']]\<rparr>
   \<and> \<not> isWebSocketRequest \<lparr>Method = ''GET'', Path = ''/ws'',
       Header = [''Upgrade'' \<mapsto> [''websocket''], ''Connection'' \<mapsto> [''upgrade'']]\<rparr>
   \<and> \<not> isWebSocketRequest \<lparr>Method = ''GET'', Path = ''/ws'',
       Header = [''Upgrade'' \<mapsto> [''websocket''], ''Connection'' \<mapsto> [''keep-alive, Upgrade'']]\<rparr>
   \<and> Director (configureWebsocketProxy
          \<lparr>Director = (\<lambda>r. r), ModifyResponse = (\<lambda>resp w. (None, w))\<rparr>)
        \<lparr>Method = ''GET'', Path = ''/ws'', Header = [''Upgrade'' \<mapsto> [''websocket'']]\<rparr>
       = \<lparr>Method = ''GET'', Path = ''/ws'', Header = [''Upgrade'' \<mapsto> [''websocket'']]\<rparr>"
  using
    isWebSocketRequest_exact_match [of
      "\<lparr>Method = ''GET'', Path = ''/ws'',
         Header = [''Upgrade'' \<mapsto> [''websocket''], ''Connection'' \<mapsto> [''Upgrade'']]\<rparr>"
      "\<lparr>Director = (\<lambda>r. r), ModifyResponse = (\<lambda>resp w. (None, w))\<rparr>"
      "\<lparr>Method = ''GET'', Path = ''/ws'', Header = [''Upgrade'' \<mapsto> [''websocket'']]\<rparr>"]
    isWebSocketRequest_exact_match [of
      "\<lparr>Method = ''GET'', Path = ''/ws'', Header = [''Upgrade'' \<mapsto> [''websocket'']]\<rparr>"]
    isWebSocketRequest_exact_match [of
      "\<lparr>Method = ''GET'', Path = ''/ws'',
         Header = [''Upgrade'' \<mapsto> [''WebSocket''], ''Connection'' \<mapsto> [''Upgrade'']]\<rparr>"]
    isWebSocketRequest_exact_match [of
      "\<lparr>Method = ''GET'', Path = ''/ws'',
         Header = [''Upgrade'' \<mapsto> [''websocket''], ''Connection'' \<mapsto> [''upgrade'']]\<rparr>"]
    isWebSocketRequest_exact_match [of
      "\<lparr>Method = ''GET'', Path = ''/ws'',
         Header = [''Upgrade'' \<mapsto> [''websocket''], ''Connection'' \<mapsto> [''keep-alive, Upgrade'']]\<rparr>"]
  by simp

section \<open>Repeated outcomes\<close>

text \<open>
  Claim C6. When the probes that follow a probe all come to the same classification
  as it, they leave the flag as that probe left it and add no transition line: a
  sequence of equal outcomes prints at most one. Writing a value a second time changes
  nothing and prints nothing; it only takes and releases the lock.
\<close>

theorem repeated_outcomes_no_transition:
  assumes "\<forall>q \<in> set ps. outcome_is_online q = outcome_is_online p"
  shows "status (healthChecker ps (healthCheckCycle p w)) = status (healthCheckCycle p w)
       \<and> serverAOnline (status (healthChecker ps (healthCheckCycle p w))) = outcome_is_online p
       \<and> transitions (trace (healthChecker ps (healthCheckCycle p w))) =
           transitions (trace (healthCheckCycle p w))
       \<and> length (transitions (trace (healthChecker (p # ps) w))) \<le>
           length (transitions (trace w)) + 1
       \<and> snd (setServerAStatus online (snd (setServerAStatus online w))) =
           (snd (setServerAStatus online w))
             \<lparr>trace := trace (snd (setServerAStatus online w)) @ [Lock, Unlock]\<rparr>"
proof -
  have same: "\<forall>q \<in> set ps. outcome_is_online q = serverAOnline (status (healthCheckCycle p w))"
    using assms by simp
  note rest = healthChecker_same_outcomes [OF same]
  have "length (transitions (trace (healthCheckCycle p w))) \<le> length (transitions (trace w)) + 1"
    by (simp add: transitions_healthCheckCycle)
  with rest show ?thesis
    by (simp add: setServerAStatus_eq)
qed

theorem repeated_outcomes_no_transition_witness:
  "transitions (trace (healthChecker [DoError ''timeout'', NewRequestError ''bad url'', DoError ''refused'']
       \<lparr>status = \<lparr>serverAOnline = True\<rparr>, trace = []\<rparr>)) =
     [Println ''Server A is offline. Switching to server B.'']
   \<and> \<not> serverAOnline (status (healthChecker
       [DoError ''timeout'', NewRequestError ''bad url'', DoError ''refused'']
       \<lparr>status = \<lparr>serverAOnline = True\<rparr>, trace = []\<rparr>))"
  using repeated_outcomes_no_transition [of "[NewRequestError ''bad url'', DoError ''refused'']"
      "DoError ''timeout''" "\<lparr>status = \<lparr>serverAOnline = True\<rparr>, trace = []\<rparr>"]
  by (simp add: setServerAStatus_eq transitions_def is_transition_def)

section \<open>Start-up\<close>

text \<open>The three ways \<open>main\<close> can go, with the events of each written out.\<close>

lemma main_cases:
  "main url_Parse http_ListenAndServe cfg =
     (case url_Parse (serverAAddr cfg) of
        Inl err \<Rightarrow> Exited [Printf ''Failed to parse server A URL: %v'' [ArgErr err], Exit 1]
      | Inr serverA \<Rightarrow>
          (case url_Parse (serverBAddr cfg) of
             Inl err \<Rightarrow> Exited [Printf ''Failed to parse server B URL: %v'' [ArgErr err], Exit 1]
           | Inr serverB \<Rightarrow>
               (case http_ListenAndServe (listenAddr cfg) of
                  Some err \<Rightarrow>
                    Exited [GoHealthChecker, HandleFunc ''/'',
                      Printf ''Starting reverse proxy on %s'' [ArgStr (listenAddr cfg)],
                      Printf ''Primary target: %s'' [ArgStr (serverAAddr cfg)],
                      Printf ''Fallback target: %s'' [ArgStr (serverBAddr cfg)],
                      ListenAndServe (listenAddr cfg),
                      Printf ''Error starting server: %v'' [ArgErr err], Exit 1]
                | None \<Rightarrow>
                    Serving \<lparr>status = \<lparr>serverAOnline = True\<rparr>,
                      trace = [GoHealthChecker, HandleFunc ''/'',
                        Printf ''Starting reverse proxy on %s'' [ArgStr (listenAddr cfg)],
                        Printf ''Primary target: %s'' [ArgStr (serverAAddr cfg)],
                        Printf ''Fallback target: %s'' [ArgStr (serverBAddr cfg)],
                        ListenAndServe (listenAddr cfg)]\<rparr>)))"
  by (simp add: main_def Let_def emit_def Fatalf_def split: sum.splits option.splits)

text \<open>
  Claim C7, as amended. When \<^verbatim>\<open>url.Parse\<close> reports an error for the address of
  server A or of server B, the process prints the error and exits with status 1
  before the health checker is started and before \<^verbatim>\<open>ListenAndServe\<close> is called. A
  URL that parses without an error is accepted, absolute or not. The only other
  condition that ends the process is an error returned by \<^verbatim>\<open>ListenAndServe\<close>, again
  with status 1.
\<close>

theorem main_fatal_conditions:
  "(\<forall>t. main url_Parse http_ListenAndServe cfg = Exited t \<longrightarrow> t \<noteq> [] \<and> last t = Exit 1)
   \<and> ((\<exists>t. main url_Parse http_ListenAndServe cfg = Exited t \<and>
            GoHealthChecker \<notin> set t \<and> ListenAndServe (listenAddr cfg) \<notin> set t)
        \<longleftrightarrow> isl (url_Parse (serverAAddr cfg)) \<or> isl (url_Parse (serverBAddr cfg)))
   \<and> ((\<exists>t. main url_Parse http_ListenAndServe cfg = Exited t)
        \<longleftrightarrow> isl (url_Parse (serverAAddr cfg)) \<or> isl (url_Parse (serverBAddr cfg))
            \<or> http_ListenAndServe (listenAddr cfg) \<noteq> None)"
  by (auto simp: main_cases split: sum.splits option.splits)

theorem main_fatal_conditions_witness:
  "main (\<lambda>s. if s = ''http://a:11434''
              then Inr \<lparr>Scheme = ''http'', Host = ''a:11434'', URLPath = []\<rparr>
              else Inl ''first path segment in URL cannot contain colon'')
        (\<lambda>a. None)
        \<lparr>listenAddr = '':8080'', serverAAddr = ''http://a:11434'', serverBAddr = ''10.0.0.2:11434''\<rparr>
     = Exited [Printf ''Failed to parse server B URL: %v''
                 [ArgErr ''first path segment in URL cannot contain colon''],
               Exit 1]"
  using main_fatal_conditions [of
      "\<lambda>s. if s = ''http://a:11434''
              then Inr \<lparr>Scheme = ''http'', Host = ''a:11434'', URLPath = []\<rparr>
              else Inl ''first path segment in URL cannot contain colon''"
      "\<lambda>a. None"
      "\<lparr>listenAddr = '':8080'', serverAAddr = ''http://a:11434'', serverBAddr = ''10.0.0.2:11434''\<rparr>"]
  by (simp add: main_cases)

text \<open>
  Claim C7 as stated fails twice. \<^verbatim>\<open>url.Parse\<close> accepts a relative reference: for
  the empty string (the address when \<^verbatim>\<open>SERVER_A_ADDR\<close> is not set) it returns the
  empty URL and no error, the URL is not absolute, and \<open>main\<close> goes on to serve. And
  with two absolute URLs, an error of \<^verbatim>\<open>ListenAndServe\<close> ends the process.
\<close>

theorem main_accepts_relative_url:
  "\<not> IsAbs \<lparr>Scheme = [], Host = [], URLPath = []\<rparr>
   \<and> main (\<lambda>s. if s = [] then Inr \<lparr>Scheme = [], Host = [], URLPath = []\<rparr>
                 else Inr \<lparr>Scheme = ''http'', Host = ''10.0.0.2:11434'', URLPath = []\<rparr>)
        (\<lambda>a. None)
        \<lparr>listenAddr = '':8080'', serverAAddr = [], serverBAddr = ''http://10.0.0.2:11434''\<rparr>
     = Serving \<lparr>status = \<lparr>serverAOnline = True\<rparr>,
         trace = [GoHealthChecker, HandleFunc ''/'',
           Printf ''Starting reverse proxy on %s'' [ArgStr '':8080''],
           Printf ''Primary target: %s'' [ArgStr []],
           Printf ''Fallback target: %s'' [ArgStr ''http://10.0.0.2:11434''],
           ListenAndServe '':8080'']\<rparr>
   \<and> main (\<lambda>s. Inr \<lparr>Scheme = ''http'', Host = ''10.0.0.2:11434'', URLPath = []\<rparr>)
        (\<lambda>a. Some ''listen tcp :8080: bind: address already in use'')
        \<lparr>listenAddr = '':8080'', serverAAddr = ''http://10.0.0.1:11434'',
           serverBAddr = ''http://10.0.0.2:11434''\<rparr>
     = Exited [GoHealthChecker, HandleFunc ''/'',
           Printf ''Starting reverse proxy on %s'' [ArgStr '':8080''],
           Printf ''Primary target: %s'' [ArgStr ''http://10.0.0.1:11434''],
           Printf ''Fallback target: %s'' [ArgStr ''http://10.0.0.2:11434''],
           ListenAndServe '':8080'',
           Printf ''Error starting server: %v''
             [ArgErr ''listen tcp :8080: bind: address already in use''],
           Exit 1]"
  by (simp add: main_cases IsAbs_def)

section \<open>The headers of a WebSocket request\<close>

text \<open>
  Claim C8, as amended. The director that \<open>configureWebsocketProxy\<close> installs
  rewrites only a request that it classifies as a WebSocket request, one whose first
  \<^verbatim>\<open>Connection\<close> value is already \<^verbatim>\<open>Upgrade\<close> and whose first \<^verbatim>\<open>Upgrade\<close> value
  is already \<^verbatim>\<open>websocket\<close>. For such a request both tests for a non-empty header
  succeed, and the request the director returns has exactly the value \<^verbatim>\<open>Upgrade\<close>
  for \<^verbatim>\<open>Connection\<close> and exactly the value \<^verbatim>\<open>websocket\<close> for \<^verbatim>\<open>Upgrade\<close>; every other
  header, the method and the path are as the original director left them. Every other
  request, one with malformed or partial upgrade headers included, is returned as the
  original director left it: it is neither repaired nor rejected.
\<close>

theorem director_forces_upgrade_headers:
  "(isWebSocketRequest (Director proxy req0) \<longrightarrow>
      Header_Get (Header (Director proxy req0)) ''Connection'' \<noteq> []
      \<and> Header_Get (Header (Director proxy req0)) ''Upgrade'' \<noteq> []
      \<and> Header (Director (configureWebsocketProxy proxy) req0) ''Connection'' = Some [''Upgrade'']
      \<and> Header (Director (configureWebsocketProxy proxy) req0) ''Upgrade'' = Some [''websocket'']
      \<and> (\<forall>k. k \<noteq> ''Connection'' \<and> k \<noteq> ''Upgrade'' \<longrightarrow>
            Header (Director (configureWebsocketProxy proxy) req0) k =
            Header (Director proxy req0) k)
      \<and> Method (Director (configureWebsocketProxy proxy) req0) = Method (Director proxy req0)
      \<and> Path (Director (configureWebsocketProxy proxy) req0) = Path (Director proxy req0))
   \<and> (\<not> isWebSocketRequest (Director proxy req0) \<longrightarrow>
        Director (configureWebsocketProxy proxy) req0 = Director proxy req0)
   \<and> (Director (configureWebsocketProxy proxy) req0 \<noteq> Director proxy req0 \<longrightarrow>
        Header_Get (Header (Director proxy req0)) ''Connection'' = ''Upgrade'' \<and>
        Header_Get (Header (Director proxy req0)) ''Upgrade'' = ''websocket'')"
proof -
  have classified: "isWebSocketRequest (Director proxy req0) \<Longrightarrow>
      Header_Get (Header (Director proxy req0)) ''Connection'' \<noteq> []
      \<and> Header_Get (Header (Director proxy req0)) ''Upgrade'' \<noteq> []"
    by (simp add: isWebSocketRequest_def)
  have other: "\<not> isWebSocketRequest (Director proxy req0) \<Longrightarrow>
      Director (configureWebsocketProxy proxy) req0 = Director proxy req0"
    by (simp add: Director_configure)
  have only: "Director (configureWebsocketProxy proxy) req0 \<noteq> Director proxy req0 \<Longrightarrow>
      Header_Get (Header (Director proxy req0)) ''Connection'' = ''Upgrade'' \<and>
      Header_Get (Header (Director proxy req0)) ''Upgrade'' = ''websocket''"
    using other by (auto simp: isWebSocketRequest_def)
  show ?thesis
    using classified other only by (simp add: Director_configure)
qed

theorem director_forces_upgrade_headers_witness:
  "Header (Director (configureWebsocketProxy
        \<lparr>Director = (\<lambda>r. r), ModifyResponse = (\<lambda>resp w. (None, w))\<rparr>)
      \<lparr>Method = ''GET'', Path = ''/ws'',
         Header = [''Host'' \<mapsto> [''proxy.example''],
                   ''Upgrade'' \<mapsto> [''websocket'', ''h2c''],
                   ''Connection'' \<mapsto> [''Upgrade'']]\<rparr>) ''Upgrade'' = Some [''websocket'']
   \<and> Header (Director (configureWebsocketProxy
        \<lparr>Director = (\<lambda>r. r), ModifyResponse = (\<lambda>resp w. (None, w))\<rparr>)
      \<lparr>Method = ''GET'', Path = ''/ws'',
         Header = [''Host'' \<mapsto> [''proxy.example''],
                   ''Upgrade'' \<mapsto> [''websocket'', ''h2c''],
                   ''Connection'' \<mapsto> [''Upgrade'']]\<rparr>) ''Host'' = Some [''proxy.example'']"
  using director_forces_upgrade_headers [of
      "\<lparr>Director = (\<lambda>r. r), ModifyResponse = (\<lambda>resp w. (None, w))\<rparr>"
      "\<lparr>Method = ''GET'', Path = ''/ws'',
         Header = [''Host'' \<mapsto> [''proxy.example''],
                   ''Upgrade'' \<mapsto> [''websocket'', ''h2c''],
                   ''Connection'' \<mapsto> [''Upgrade'']]\<rparr>"]
  by (simp add: isWebSocketRequest_def Header_Get_def)

text \<open>
  Claim C8 as stated fails in its last clause: malformed or partial upgrade headers
  are not repaired. A \<^verbatim>\<open>Connection\<close> header in lower case is not empty and is not
  forced to \<^verbatim>\<open>Upgrade\<close>; an \<^verbatim>\<open>Upgrade\<close> header in mixed case is not empty and is
  not forced to \<^verbatim>\<open>websocket\<close>; a request with the \<^verbatim>\<open>Upgrade\<close> header alone comes
  back as it went in.
\<close>

theorem director_leaves_malformed_headers:
  "Header_Get [''Upgrade'' \<mapsto> [''websocket''], ''Connection'' \<mapsto> [''upgrade'']] ''Connection'' \<noteq> []
   \<and> Header (Director (configureWebsocketProxy
          \<lparr>Director = (\<lambda>r. r), ModifyResponse = (\<lambda>resp w. (None, w))\<rparr>)
        \<lparr>Method = ''GET'', Path = ''/ws'',
           Header = [''Upgrade'' \<mapsto> [''websocket''], ''Connection'' \<mapsto> [''upgrade'']]\<rparr>)
        ''Connection'' = Some [''upgrade'']
   \<and> Header_Get [''Connection'' \<mapsto> [''Upgrade''], ''Upgrade'' \<mapsto> [''WebSocket'']] ''Upgrade'' \<noteq> []
   \<and> Header (Director (configureWebsocketProxy
          \<lparr>Director = (\<lambda>r. r), ModifyResponse = (\<lambda>resp w. (None, w))\<rparr>)
        \<lparr>Method = ''GET'', Path = ''/ws'',
           Header = [''Connection'' \<mapsto> [''Upgrade''], ''Upgrade'' \<mapsto> [''WebSocket'']]\<rparr>)
        ''Upgrade'' = Some [''WebSocket'']
   \<and> Director (configureWebsocketProxy
          \<lparr>Director = (\<lambda>r. r), ModifyResponse = (\<lambda>resp w. (None, w))\<rparr>)
        \<lparr>Method = ''GET'', Path = ''/ws'', Header = [''Upgrade'' \<mapsto> [''websocket'']]\<rparr>
       = \<lparr>Method = ''GET'', Path = ''/ws'', Header = [''Upgrade'' \<mapsto> [''websocket'']]\<rparr>"
  by (simp add: Director_configure isWebSocketRequest_def Header_Get_def)

lemma request_Header_update_same:
  "(r\<lparr>Header := h\<rparr> = (r::request)) = (h = Header r)"
  by (cases r) auto

lemma header_two_updates_same:
  "(h(a \<mapsto> x, b \<mapsto> y) = h) = ((a = b \<or> h a = Some x) \<and> h b = Some y)"
  by (auto simp: fun_eq_iff)

text \<open>
  Claim C9, as amended. For a request classified as a WebSocket request, the
  configured director leaves the first value of every header as it was, those of
  \<^verbatim>\<open>Connection\<close> and \<^verbatim>\<open>Upgrade\<close> included; it is the identity exactly when each of
  these two headers has the one value that the classification asks for, and
  otherwise it drops their further values. A request that is not classified is left
  unchanged: nothing is repaired for it.
\<close>

theorem director_keeps_first_values:
  "(isWebSocketRequest (Director proxy req0) \<longrightarrow>
      (\<forall>k. Header_Get (Header (Director (configureWebsocketProxy proxy) req0)) k =
            Header_Get (Header (Director proxy req0)) k)
      \<and> (Director (configureWebsocketProxy proxy) req0 = Director proxy req0 \<longleftrightarrow>
           Header (Director proxy req0) ''Connection'' = Some [''Upgrade''] \<and>
           Header (Director proxy req0) ''Upgrade'' = Some [''websocket''])
      \<and> Director (configureWebsocketProxy proxy) req0 =
           (Director proxy req0)\<lparr>Header :=
              (Header (Director proxy req0))
                (''Connection'' \<mapsto> [''Upgrade''], ''Upgrade'' \<mapsto> [''websocket''])\<rparr>)
   \<and> (\<not> isWebSocketRequest (Director proxy req0) \<longrightarrow>
        Director (configureWebsocketProxy proxy) req0 = Director proxy req0)"
  by (auto simp: Director_configure request_Header_update_same header_two_updates_same
      isWebSocketRequest_def Header_Get_def)

theorem director_keeps_first_values_witness:
  "Director (configureWebsocketProxy
        \<lparr>Director = (\<lambda>r. r), ModifyResponse = (\<lambda>resp w. (None, w))\<rparr>)
      \<lparr>Method = ''GET'', Path = ''/ws'',
         Header = [''Upgrade'' \<mapsto> [''websocket''], ''Connection'' \<mapsto> [''Upgrade'']]\<rparr>
   = \<lparr>Method = ''GET'', Path = ''/ws'',
         Header = [''Upgrade'' \<mapsto> [''websocket''], ''Connection'' \<mapsto> [''Upgrade'']]\<rparr>"
  using director_keeps_first_values [of
      "\<lparr>Director = (\<lambda>r. r), ModifyResponse = (\<lambda>resp w. (None, w))\<rparr>"
      "\<lparr>Method = ''GET'', Path = ''/ws'',
         Header = [''Upgrade'' \<mapsto> [''websocket''], ''Connection'' \<mapsto> [''Upgrade'']]\<rparr>"]
  by (simp add: isWebSocketRequest_def Header_Get_def)

text \<open>
  Claim C9 as stated fails: a header can have several values, the classification
  reads the first, and \<^verbatim>\<open>Set\<close> replaces them all. A request with the header lines
  \<^verbatim>\<open>Connection: Upgrade\<close> and \<^verbatim>\<open>Connection: keep-alive\<close> is classified, and the
  director drops the second value.
\<close>

theorem director_drops_further_values:
  "isWebSocketRequest
      \<lparr>Method = ''GET'', Path = ''/ws'',
         Header = [''Upgrade'' \<mapsto> [''websocket''],
                   ''Connection'' \<mapsto> [''Upgrade'', ''keep-alive'']]\<rparr>
   \<and> Header \<lparr>Method = ''GET'', Path = ''/ws'',
         Header = [''Upgrade'' \<mapsto> [''websocket''],
                   ''Connection'' \<mapsto> [''Upgrade'', ''keep-alive'']]\<rparr> ''Connection''
       = Some [''Upgrade'', ''keep-alive'']
   \<and> Header (Director (configureWebsocketProxy
          \<lparr>Director = (\<lambda>r. r), ModifyResponse = (\<lambda>resp w. (None, w))\<rparr>)
        \<lparr>Method = ''GET'', Path = ''/ws'',
           Header = [''Upgrade'' \<mapsto> [''websocket''],
                     ''Connection'' \<mapsto> [''Upgrade'', ''keep-alive'']]\<rparr>) ''Connection''
       = Some [''Upgrade'']"
  by (simp add: Director_configure isWebSocketRequest_def Header_Get_def)

end
